theory Spec2Isabelle
  imports Main
begin

section \<open>The instruction graph read by the differentiation utilities\<close>

text \<open>
  The utilities of \<^verbatim>\<open>lib/SILOptimizer/Utils/Differentiation/Common.cpp\<close> only read
  a SIL function: values, their types, their defining instructions and their uses.
  An SSA value is modelled as a term that carries its defining instruction, so that
  \<^verbatim>\<open>getDefiningInstruction\<close> and the \<^verbatim>\<open>dyn_cast\<close>s are pattern matches; every
  instruction carries a number, its identity, so that two instructions with the same
  operands stay different. Use lists are read off the instruction list of the function.
\<close>

datatype SILType = TupleType "SILType list" | NominalType string

fun isTupleType :: "SILType \<Rightarrow> bool" where
  "isTupleType (TupleType _) = True"
| "isTupleType (NominalType _) = False"

datatype ResultConvention = Indirect | Owned | Unowned | UnownedInnerPointer | Autoreleased

datatype SILResultInfo =
  SILResultInfo (getInterfaceType: SILType) (getConvention: ResultConvention)

definition isFormalIndirect :: "SILResultInfo \<Rightarrow> bool" where
  "isFormalIndirect res = (getConvention res = Indirect)"

definition isFormalDirect :: "SILResultInfo \<Rightarrow> bool" where
  "isFormalDirect res = (\<not> isFormalIndirect res)"

text \<open>
  A value is the result of a single-value instruction (in SIL the instruction itself),
  one of the results of a multiple-value instruction, or an argument of a function or
  block, which has no defining instruction. A value is never null.
\<close>

datatype SILValue =
    SingleValue SILType SILInstruction
  | MultipleValueResult SILType SILInstruction nat
  | SILArgument SILType nat
and SILInstruction =
    Apply ApplyInst
  | DestructureTuple DestructureTupleInst
  | PointerToAddressInst nat SILValue
  | IndexAddrInst nat SILValue SILValue
  | TupleInst nat "SILValue list"
  | ReturnInst nat SILValue
  | OtherInst nat "SILValue list"
and ApplyInst =
    MkApplyInst (applyName: nat) (applyType: SILType)
      (getSubstCalleeResults: "SILResultInfo list")
      (getArguments: "SILValue list") (calleeSemantics: "string list")
and DestructureTupleInst =
    MkDestructureTupleInst (dtiName: nat) (dtiOperand: SILValue)
      (dtiResultTypes: "SILType list")

fun getType :: "SILValue \<Rightarrow> SILType" where
  "getType (SingleValue ty _) = ty"
| "getType (MultipleValueResult ty _ _) = ty"
| "getType (SILArgument ty _) = ty"

fun getDefiningInstruction :: "SILValue \<Rightarrow> SILInstruction option" where
  "getDefiningInstruction (SingleValue _ inst) = Some inst"
| "getDefiningInstruction (MultipleValueResult _ inst _) = Some inst"
| "getDefiningInstruction (SILArgument _ _) = None"

text \<open>The conversion of an \<^verbatim>\<open>ApplyInst *\<close> to the value it defines.\<close>

definition applyValue :: "ApplyInst \<Rightarrow> SILValue" where
  "applyValue ai = SingleValue (applyType ai) (Apply ai)"

text \<open>\<^verbatim>\<open>dti->getResults()\<close>: the results of the instruction, in order.\<close>

definition getResults :: "DestructureTupleInst \<Rightarrow> SILValue list" where
  "getResults dti =
     map (\<lambda>k. MultipleValueResult (dtiResultTypes dti ! k) (DestructureTuple dti) k)
       [0 ..< length (dtiResultTypes dti)]"

text \<open>
  The operands of an instruction. Of an \<^verbatim>\<open>apply\<close> these are its arguments; its
  callee operand is left out, no function of the file reads it.
\<close>

fun getAllOperands :: "SILInstruction \<Rightarrow> SILValue list" where
  "getAllOperands (Apply ai) = getArguments ai"
| "getAllOperands (DestructureTuple dti) = [dtiOperand dti]"
| "getAllOperands (PointerToAddressInst _ v) = [v]"
| "getAllOperands (IndexAddrInst _ base idx) = [base, idx]"
| "getAllOperands (TupleInst _ elts) = elts"
| "getAllOperands (ReturnInst _ v) = [v]"
| "getAllOperands (OtherInst _ vs) = vs"

text \<open>
  A function: the results of its lowered type, the arguments of its entry block
  (indirect results first) and its instructions.
\<close>

record SILFunction =
  loweredResults :: "SILResultInfo list"
  entryArguments :: "SILValue list"
  instructions :: "SILInstruction list"

text \<open>
  \<^verbatim>\<open>value->getUses()\<close>, each use read through \<^verbatim>\<open>use->getUser()\<close>: one entry for
  every operand of an instruction of the function that is the value.
\<close>

definition getUsers :: "SILFunction \<Rightarrow> SILValue \<Rightarrow> SILInstruction list" where
  "getUsers F v =
     concat (map (\<lambda>user. map (\<lambda>_. user) (filter (\<lambda>opnd. opnd = v) (getAllOperands user)))
       (instructions F))"

text \<open>
  The ways a function of the file ends without returning. Three are assertions that the
  file writes itself: \<open>MultipleDestructureTupleUsers\<close> (line 61),
  \<open>ResultCountMismatch\<close> (line 145) and \<open>NoActiveResults\<close> (line 146). The others
  are operations whose precondition the file does not test: a \<^verbatim>\<open>dyn_cast\<close> of a
  null pointer (line 46; \<^verbatim>\<open>dyn_cast_or_null\<close> is the variant that accepts null), a
  read of a \<^verbatim>\<open>SmallVector\<close> or an \<^verbatim>\<open>ArrayRef\<close> past its end (lines 97, 98,
  132 and 138), a slice that does not fit its array, and the terminator of a return block
  that does not exist (line 86). There the file reports nothing: a build with LLVM's
  assertions aborts inside the library, a build without them has undefined behaviour.
  The model ends the run at such an operation with an outcome of its own, which stands
  for both and says nothing about what happens afterwards.
\<close>

datatype fatal =
    NullPointerCast
  | MultipleDestructureTupleUsers
  | UncheckedReadPastEnd
  | InvalidSlice
  | NoReturnBlock
  | ResultCountMismatch
  | NoActiveResults

section \<open>The array allocation intrinsic\<close>

definition isArrayLiteralIntrinsic :: "ApplyInst \<Rightarrow> bool" where
  "isArrayLiteralIntrinsic ai =
     List.member (calleeSemantics ai) ''array.uninitialized_intrinsic''"

definition getAllocateUninitializedArrayIntrinsic :: "SILValue \<Rightarrow> ApplyInst option" where
  "getAllocateUninitializedArrayIntrinsic v =
     (case v of
        SingleValue _ (Apply ai) \<Rightarrow> if isArrayLiteralIntrinsic ai then Some ai else None
      | _ \<Rightarrow> None)"

text \<open>
  \<^verbatim>\<open>dyn_cast<PointerToAddressInst>\<close> of a value: the operand of the instruction when
  the value is a \<^verbatim>\<open>pointer_to_address\<close>.
\<close>

fun dyn_cast_PointerToAddressInst :: "SILValue \<Rightarrow> SILValue option" where
  "dyn_cast_PointerToAddressInst (SingleValue _ (PointerToAddressInst _ opnd)) = Some opnd"
| "dyn_cast_PointerToAddressInst _ = None"

text \<open>
  \<^verbatim>\<open>dyn_cast<IndexAddrInst>\<close> of a value: operand 0 (the base) of the instruction
  when the value is an \<^verbatim>\<open>index_addr\<close>.
\<close>

fun dyn_cast_IndexAddrInst :: "SILValue \<Rightarrow> SILValue option" where
  "dyn_cast_IndexAddrInst (SingleValue _ (IndexAddrInst _ base _)) = Some base"
| "dyn_cast_IndexAddrInst _ = None"

text \<open>
  Lines 37 to 52. The \<^verbatim>\<open>dyn_cast<DestructureTupleInst>\<close> of line 46 is applied to
  \<^verbatim>\<open>getDefiningInstruction()\<close>, which is null for an argument.
\<close>

definition getAllocateUninitializedArrayIntrinsicElementAddress ::
    "SILValue \<Rightarrow> fatal + ApplyInst option" where
  "getAllocateUninitializedArrayIntrinsicElementAddress v =
     (let ptai = dyn_cast_PointerToAddressInst v;
          ptai = (case dyn_cast_IndexAddrInst v of
                    Some iaiBase \<Rightarrow> dyn_cast_PointerToAddressInst iaiBase
                  | None \<Rightarrow> ptai)
      in case ptai of
           None \<Rightarrow> Inr None
         | Some ptaiOperand \<Rightarrow>
             (case getDefiningInstruction ptaiOperand of
                None \<Rightarrow> Inl NullPointerCast
              | Some (DestructureTuple dti) \<Rightarrow>
                  (case getAllocateUninitializedArrayIntrinsic (dtiOperand dti) of
                     Some ai \<Rightarrow> Inr (Some ai)
                   | None \<Rightarrow> Inr None)
              | Some _ \<Rightarrow> Inr None))"

section \<open>The tuple decomposition of a value\<close>

text \<open>Lines 59 to 66: the loop over the uses, with its two local variables.\<close>

fun scanUses ::
    "SILInstruction list \<Rightarrow> bool \<Rightarrow> DestructureTupleInst option
      \<Rightarrow> fatal + DestructureTupleInst option" where
  "scanUses [] foundDestructureTupleUser result = Inr result"
| "scanUses (DestructureTuple dti # uses) foundDestructureTupleUser result =
     (if foundDestructureTupleUser then Inl MultipleDestructureTupleUsers
      else scanUses uses True (Some dti))"
| "scanUses (_ # uses) foundDestructureTupleUser result =
     scanUses uses foundDestructureTupleUser result"

definition getSingleDestructureTupleUser ::
    "SILFunction \<Rightarrow> SILValue \<Rightarrow> fatal + DestructureTupleInst option" where
  "getSingleDestructureTupleUser F v =
     (if \<not> isTupleType (getType v) then Inr None
      else scanUses (getUsers F v) False None)"

section \<open>The direct results of a call\<close>

text \<open>
  Lines 70 to 79. The callback acts on the state of its caller, so it is a state
  transformer; the function returns the state after the calls of the callback.
\<close>

definition forEachApplyDirectResult ::
    "SILFunction \<Rightarrow> ApplyInst \<Rightarrow> (SILValue \<Rightarrow> 's \<Rightarrow> 's) \<Rightarrow> 's \<Rightarrow> fatal + 's" where
  "forEachApplyDirectResult F ai resultCallback s =
     (if \<not> isTupleType (applyType ai) then Inr (resultCallback (applyValue ai) s)
      else case getSingleDestructureTupleUser F (applyValue ai) of
             Inl e \<Rightarrow> Inl e
           | Inr None \<Rightarrow> Inr s
           | Inr (Some dti) \<Rightarrow> Inr (fold resultCallback (getResults dti) s))"

text \<open>The callback of line 120: \<^verbatim>\<open>directResults.push_back(directResult)\<close>.\<close>

definition push_back :: "'a \<Rightarrow> 'a list \<Rightarrow> 'a list" where
  "push_back x xs = xs @ [x]"

section \<open>Function conventions\<close>

text \<open>
  SIL with lowered addresses, the form the differentiation transform runs on: every
  formally indirect result is an indirect SIL result, passed as a leading argument.
  \<^verbatim>\<open>slice\<close> is the one of \<^verbatim>\<open>ArrayRef\<close>; a slice that does not fit the array is
  fatal.
\<close>

definition getNumIndirectSILResults :: "SILResultInfo list \<Rightarrow> nat" where
  "getNumIndirectSILResults rs = length (filter isFormalIndirect rs)"

definition getSILArgIndexOfFirstIndirectResult :: "SILResultInfo list \<Rightarrow> nat" where
  "getSILArgIndexOfFirstIndirectResult rs = 0"

definition slice :: "'a list \<Rightarrow> nat \<Rightarrow> nat \<Rightarrow> fatal + 'a list" where
  "slice xs n m = (if n + m \<le> length xs then Inr (take m (drop n xs)) else Inl InvalidSlice)"

definition sliceFrom :: "'a list \<Rightarrow> nat \<Rightarrow> fatal + 'a list" where
  "sliceFrom xs n = (if n \<le> length xs then Inr (drop n xs) else Inl InvalidSlice)"

definition getIndirectSILResults :: "ApplyInst \<Rightarrow> fatal + SILValue list" where
  "getIndirectSILResults ai =
     slice (getArguments ai) 0 (getNumIndirectSILResults (getSubstCalleeResults ai))"

definition getArgumentsWithoutIndirectResults :: "ApplyInst \<Rightarrow> fatal + SILValue list" where
  "getArgumentsWithoutIndirectResults ai =
     sliceFrom (getArguments ai) (getNumIndirectSILResults (getSubstCalleeResults ai))"

definition getIndirectResults :: "SILFunction \<Rightarrow> fatal + SILValue list" where
  "getIndirectResults F =
     slice (entryArguments F) 0 (getNumIndirectSILResults (loweredResults F))"

section \<open>The formal results of a function\<close>

text \<open>
  \<^verbatim>\<open>function.findReturnBB()->getTerminator()\<close>, read through \<^verbatim>\<open>getOperand()\<close>:
  the operand of the return instruction of the function. A function without a return
  block has none, and line 86 is fatal.
\<close>

fun findReturnOperand :: "SILInstruction list \<Rightarrow> SILValue option" where
  "findReturnOperand [] = None"
| "findReturnOperand (ReturnInst _ retVal # _) = Some retVal"
| "findReturnOperand (_ # insts) = findReturnOperand insts"

text \<open>
  Lines 96 to 98. The two reads are not guarded in the source; the tests of the model
  only separate a read inside the vector from a read past its end.
\<close>

fun formalResultsLoop ::
    "SILValue list \<Rightarrow> SILValue list \<Rightarrow> SILResultInfo list \<Rightarrow> nat \<Rightarrow> nat
      \<Rightarrow> SILValue list \<Rightarrow> fatal + SILValue list" where
  "formalResultsLoop dirResults indResults [] indResIdx dirResIdx results = Inr results"
| "formalResultsLoop dirResults indResults (resInfo # rest) indResIdx dirResIdx results =
     (if isFormalDirect resInfo then
        (if dirResIdx < length dirResults
         then formalResultsLoop dirResults indResults rest indResIdx (dirResIdx + 1)
                (results @ [dirResults ! dirResIdx])
         else Inl UncheckedReadPastEnd)
      else
        (if indResIdx < length indResults
         then formalResultsLoop dirResults indResults rest (indResIdx + 1) dirResIdx
                (results @ [indResults ! indResIdx])
         else Inl UncheckedReadPastEnd))"

text \<open>
  Lines 81 to 99. \<^verbatim>\<open>results\<close> is the vector of the caller, which the function
  appends to.
\<close>

definition collectAllFormalResultsInTypeOrder ::
    "SILFunction \<Rightarrow> SILValue list \<Rightarrow> fatal + SILValue list" where
  "collectAllFormalResultsInTypeOrder F results =
     (case getIndirectResults F of
        Inl e \<Rightarrow> Inl e
      | Inr indResults \<Rightarrow>
          (case findReturnOperand (instructions F) of
             None \<Rightarrow> Inl NoReturnBlock
           | Some retVal \<Rightarrow>
               (let dirResults =
                      (case getDefiningInstruction retVal of
                         Some (TupleInst _ elts) \<Rightarrow> elts
                       | _ \<Rightarrow> [retVal])
                in formalResultsLoop dirResults indResults (loweredResults F) 0 0 results)))"

section \<open>The minimal indices of a call\<close>

text \<open>
  The three vectors that \<^verbatim>\<open>collectMinimalIndicesForFunctionCall\<close> appends to, and
  the values it has passed to \<^verbatim>\<open>activityInfo.isActive\<close> so far, in the order of the
  calls. The oracle itself is a pure function of the value and the parent indices.
\<close>

record CollectState =
  results :: "SILValue list"
  paramIndices :: "nat list"
  resultIndices :: "nat list"
  oracleQueries :: "SILValue list"

text \<open>
  Lines 112 to 116. The counters of this function are \<^verbatim>\<open>unsigned\<close>; they count
  operands and results of one instruction, whose numbers are \<^verbatim>\<open>unsigned\<close>
  themselves, so they are natural numbers that do not wrap.
\<close>

fun paramLoop ::
    "(SILValue \<Rightarrow> 'p \<Rightarrow> bool) \<Rightarrow> 'p \<Rightarrow> SILValue list \<Rightarrow> nat \<Rightarrow> CollectState
      \<Rightarrow> CollectState" where
  "paramLoop isActive parentIndices [] currentParamIdx st = st"
| "paramLoop isActive parentIndices (applyArg # applyArgs) currentParamIdx st =
     (let st1 = st\<lparr>oracleQueries := oracleQueries st @ [applyArg]\<rparr>;
          st2 = (if isActive applyArg parentIndices
                 then st1\<lparr>paramIndices := paramIndices st1 @ [currentParamIdx]\<rparr>
                 else st1)
      in paramLoop isActive parentIndices applyArgs (currentParamIdx + 1) st2)"

text \<open>
  Lines 128 to 143. The values of \<^verbatim>\<open>directResults\<close> were pushed by the callback
  and are not null, so the null tests of lines 133 and 134 pass. The reads of lines 132
  and 138 are not guarded in the source: the tests on \<open>dirResIdx\<close> and \<open>indResIdx\<close>
  below are not checks of the code, they separate a read inside the vector from a read
  past its end, where the run ends with \<open>UncheckedReadPastEnd\<close>.
\<close>

fun resultLoop ::
    "(SILValue \<Rightarrow> 'p \<Rightarrow> bool) \<Rightarrow> 'p \<Rightarrow> SILValue list \<Rightarrow> SILValue list
      \<Rightarrow> SILResultInfo list \<Rightarrow> nat \<Rightarrow> nat \<Rightarrow> nat \<Rightarrow> CollectState
      \<Rightarrow> fatal + CollectState" where
  "resultLoop isActive parentIndices directResults indirectResults []
     idx dirResIdx indResIdx st = Inr st"
| "resultLoop isActive parentIndices directResults indirectResults (res # rest)
     idx dirResIdx indResIdx st =
     (if isFormalDirect res then
        (if dirResIdx < length directResults then
           (let dirRes = directResults ! dirResIdx;
                st1 = st\<lparr>results := results st @ [dirRes]\<rparr>;
                st2 = st1\<lparr>oracleQueries := oracleQueries st1 @ [dirRes]\<rparr>;
                st3 = (if isActive dirRes parentIndices
                       then st2\<lparr>resultIndices := resultIndices st2 @ [idx]\<rparr>
                       else st2)
            in resultLoop isActive parentIndices directResults indirectResults rest
                 (idx + 1) (dirResIdx + 1) indResIdx st3)
         else Inl UncheckedReadPastEnd)
      else
        (if indResIdx < length indirectResults then
           (let indRes = indirectResults ! indResIdx;
                st1 = st\<lparr>results := results st @ [indRes]\<rparr>;
                st2 = st1\<lparr>oracleQueries := oracleQueries st1 @ [indRes]\<rparr>;
                st3 = (if isActive indRes parentIndices
                       then st2\<lparr>resultIndices := resultIndices st2 @ [idx]\<rparr>
                       else st2)
            in resultLoop isActive parentIndices directResults indirectResults rest
                 (idx + 1) dirResIdx (indResIdx + 1) st3)
         else Inl UncheckedReadPastEnd))"

text \<open>
  Lines 146 to 148: \<^verbatim>\<open>llvm::any_of\<close> stops at the first value for which the
  predicate holds.
\<close>

fun anyOfActive ::
    "(SILValue \<Rightarrow> 'p \<Rightarrow> bool) \<Rightarrow> 'p \<Rightarrow> SILValue list \<Rightarrow> CollectState
      \<Rightarrow> bool \<times> CollectState" where
  "anyOfActive isActive parentIndices [] st = (False, st)"
| "anyOfActive isActive parentIndices (result # rest) st =
     (let st1 = st\<lparr>oracleQueries := oracleQueries st @ [result]\<rparr>
      in if isActive result parentIndices then (True, st1)
         else anyOfActive isActive parentIndices rest st1)"

text \<open>Lines 101 to 149.\<close>

definition collectMinimalIndicesForFunctionCall ::
    "SILFunction \<Rightarrow> ApplyInst \<Rightarrow> 'p \<Rightarrow> (SILValue \<Rightarrow> 'p \<Rightarrow> bool) \<Rightarrow> CollectState
      \<Rightarrow> fatal + CollectState" where
  "collectMinimalIndicesForFunctionCall F ai parentIndices isActive st =
     (let calleeResults = getSubstCalleeResults ai in
      (case getArgumentsWithoutIndirectResults ai of
         Inl e \<Rightarrow> Inl e
       | Inr applyArgs \<Rightarrow>
      (let st1 = paramLoop isActive parentIndices applyArgs 0 st in
      (case forEachApplyDirectResult F ai push_back [] of
         Inl e \<Rightarrow> Inl e
       | Inr directResults \<Rightarrow>
      (case getIndirectSILResults ai of
         Inl e \<Rightarrow> Inl e
       | Inr indirectResults \<Rightarrow>
      (case resultLoop isActive parentIndices directResults indirectResults calleeResults
              0 0 (getSILArgIndexOfFirstIndirectResult calleeResults) st1 of
         Inl e \<Rightarrow> Inl e
       | Inr st2 \<Rightarrow>
      (if length (results st2) \<noteq> length calleeResults then Inl ResultCountMismatch
       else (let (anyActive, st3) = anyOfActive isActive parentIndices (results st2) st2
             in if anyActive then Inr st3 else Inl NoActiveResults))))))))"

section \<open>The specification's notions\<close>

text \<open>
  The definitions of this section follow the words of the specification, not the code;
  the theorems compare the code with them.
\<close>

text \<open>The \<^verbatim>\<open>destructure_tuple\<close> instructions among the users of a value.\<close>

fun destructureTupleUsers :: "SILInstruction list \<Rightarrow> DestructureTupleInst list" where
  "destructureTupleUsers [] = []"
| "destructureTupleUsers (DestructureTuple dti # users) = dti # destructureTupleUsers users"
| "destructureTupleUsers (_ # users) = destructureTupleUsers users"

text \<open>
  The direct contribution of a call: the outputs of its unique decomposition when its
  type is a tuple (none when it has no decomposition), the call's value otherwise.
\<close>

definition directContribution :: "SILFunction \<Rightarrow> ApplyInst \<Rightarrow> SILValue list" where
  "directContribution F ai =
     (if isTupleType (applyType ai)
      then (case destructureTupleUsers (getUsers F (applyValue ai)) of
              [dti] \<Rightarrow> getResults dti
            | _ \<Rightarrow> [])
      else [applyValue ai])"

text \<open>
  The indirect-result arguments of a call: its leading arguments, one for each formally
  indirect result of the callee.
\<close>

definition indirectResultArguments :: "ApplyInst \<Rightarrow> SILValue list" where
  "indirectResultArguments ai =
     take (length (filter isFormalIndirect (getSubstCalleeResults ai))) (getArguments ai)"

text \<open>
  The merge of section 4.1: walk the declared results; a formally direct one consumes
  the next direct value, a formally indirect one the next indirect value. There is no
  merged list when a list is exhausted.
\<close>

fun mergeResults ::
    "SILResultInfo list \<Rightarrow> SILValue list \<Rightarrow> SILValue list \<Rightarrow> SILValue list option" where
  "mergeResults [] direct indirect = Some []"
| "mergeResults (res # rest) direct indirect =
     (if isFormalDirect res then
        (case direct of
           [] \<Rightarrow> None
         | d # direct' \<Rightarrow> map_option ((#) d) (mergeResults rest direct' indirect))
      else
        (case indirect of
           [] \<Rightarrow> None
         | i # indirect' \<Rightarrow> map_option ((#) i) (mergeResults rest direct indirect')))"

text \<open>The number of formally direct, and of formally indirect, results before position \<open>k\<close>.\<close>

definition formalDirectBefore :: "SILResultInfo list \<Rightarrow> nat \<Rightarrow> nat" where
  "formalDirectBefore rs k = length (filter isFormalDirect (take k rs))"

definition formalIndirectBefore :: "SILResultInfo list \<Rightarrow> nat \<Rightarrow> nat" where
  "formalIndirectBefore rs k = length (filter isFormalIndirect (take k rs))"

text \<open>The positions, counted from \<open>n\<close>, of the values of a list that the oracle reports active.\<close>

definition activePositions ::
    "(SILValue \<Rightarrow> 'p \<Rightarrow> bool) \<Rightarrow> 'p \<Rightarrow> nat \<Rightarrow> SILValue list \<Rightarrow> nat list" where
  "activePositions isActive parentIndices n vs =
     map fst (filter (\<lambda>(k, v). isActive v parentIndices) (enumerate n vs))"

text \<open>The values up to and including the first active one (all of them when none is).\<close>

definition uptoFirstActive ::
    "(SILValue \<Rightarrow> 'p \<Rightarrow> bool) \<Rightarrow> 'p \<Rightarrow> SILValue list \<Rightarrow> SILValue list" where
  "uptoFirstActive isActive parentIndices vs =
     take (Suc (length (takeWhile (\<lambda>v. \<not> isActive v parentIndices) vs))) vs"

text \<open>
  The direct contribution of a return: the elements of the tuple instruction that
  produces the returned value, the returned value alone otherwise.
\<close>

definition returnedDirectResults :: "SILValue \<Rightarrow> SILValue list" where
  "returnedDirectResults retVal =
     (case getDefiningInstruction retVal of
        Some (TupleInst _ elts) \<Rightarrow> elts
      | _ \<Rightarrow> [retVal])"

section \<open>Example functions\<close>

definition exInt :: SILType where
  "exInt = NominalType ''Int''"

definition exFloat :: SILType where
  "exFloat = NominalType ''Float''"

definition exPair :: SILType where
  "exPair = TupleType [NominalType ''Int'', NominalType ''Float'']"

definition exArgX :: SILValue where
  "exArgX = SILArgument (NominalType ''Int'') 0"

definition exArgY :: SILValue where
  "exArgY = SILArgument (NominalType ''Float'') 1"

definition exBuf :: SILValue where
  "exBuf = SILArgument (NominalType ''*Float'') 2"

text \<open>
  Scenario A: \<^verbatim>\<open>(Int, Float) -> (Int, Float)\<close>, both results formally direct, the
  tuple decomposed by one \<^verbatim>\<open>destructure_tuple\<close>.
\<close>

definition exCallA :: ApplyInst where
  "exCallA = MkApplyInst 10 (TupleType [NominalType ''Int'', NominalType ''Float''])
     [SILResultInfo (NominalType ''Int'') Unowned, SILResultInfo (NominalType ''Float'') Unowned]
     [SILArgument (NominalType ''Int'') 0, SILArgument (NominalType ''Float'') 1] []"

definition exDtiA :: DestructureTupleInst where
  "exDtiA = MkDestructureTupleInst 11 (applyValue exCallA)
     [NominalType ''Int'', NominalType ''Float'']"

definition exDtiA2 :: DestructureTupleInst where
  "exDtiA2 = MkDestructureTupleInst 12 (applyValue exCallA)
     [NominalType ''Int'', NominalType ''Float'']"

definition exResultA0 :: SILValue where
  "exResultA0 = MultipleValueResult (NominalType ''Int'') (DestructureTuple exDtiA) 0"

definition exResultA1 :: SILValue where
  "exResultA1 = MultipleValueResult (NominalType ''Float'') (DestructureTuple exDtiA) 1"

definition exFunA :: SILFunction where
  "exFunA = \<lparr>loweredResults = [SILResultInfo (NominalType ''Float'') Unowned],
     entryArguments = [exArgX, exArgY],
     instructions = [Apply exCallA, DestructureTuple exDtiA, ReturnInst 13 exResultA1]\<rparr>"

text \<open>The same call, its tuple never decomposed; and decomposed twice.\<close>

definition exFunUnused :: SILFunction where
  "exFunUnused = \<lparr>loweredResults = [SILResultInfo (NominalType ''Float'') Unowned],
     entryArguments = [exArgX, exArgY],
     instructions = [Apply exCallA, ReturnInst 13 exArgY]\<rparr>"

text \<open>The same call, its tuple returned whole by a function with two direct results.\<close>

definition exFunWhole :: SILFunction where
  "exFunWhole = \<lparr>loweredResults =
       [SILResultInfo (NominalType ''Int'') Unowned, SILResultInfo (NominalType ''Float'') Unowned],
     entryArguments = [exArgX, exArgY],
     instructions = [Apply exCallA, ReturnInst 14 (applyValue exCallA)]\<rparr>"

definition exFunTwice :: SILFunction where
  "exFunTwice = \<lparr>loweredResults = [SILResultInfo (NominalType ''Float'') Unowned],
     entryArguments = [exArgX, exArgY],
     instructions = [Apply exCallA, DestructureTuple exDtiA, DestructureTuple exDtiA2,
       ReturnInst 13 exResultA1]\<rparr>"

text \<open>A value that is not a tuple, with two \<^verbatim>\<open>destructure_tuple\<close> users.\<close>

definition exFunOdd :: SILFunction where
  "exFunOdd = \<lparr>loweredResults = [],
     entryArguments = [exArgX],
     instructions =
       [DestructureTuple (MkDestructureTupleInst 60 exArgX []),
        DestructureTuple (MkDestructureTupleInst 61 exArgX [])]\<rparr>"

text \<open>Scenario B: one direct result, then one indirect result written to \<^verbatim>\<open>exBuf\<close>.\<close>

definition exCallB :: ApplyInst where
  "exCallB = MkApplyInst 20 (NominalType ''Float'')
     [SILResultInfo (NominalType ''Float'') Unowned, SILResultInfo (NominalType ''Float'') Indirect]
     [SILArgument (NominalType ''*Float'') 2, SILArgument (NominalType ''Int'') 0] []"

definition exFunB :: SILFunction where
  "exFunB = \<lparr>loweredResults = [SILResultInfo (NominalType ''Float'') Unowned],
     entryArguments = [exArgX, exBuf],
     instructions = [Apply exCallB, ReturnInst 21 (applyValue exCallB)]\<rparr>"

text \<open>A call that passes the same value twice.\<close>

definition exCallDup :: ApplyInst where
  "exCallDup = MkApplyInst 30 (NominalType ''Float'')
     [SILResultInfo (NominalType ''Float'') Unowned]
     [SILArgument (NominalType ''Float'') 1, SILArgument (NominalType ''Float'') 1] []"

definition exFunDup :: SILFunction where
  "exFunDup = \<lparr>loweredResults = [SILResultInfo (NominalType ''Float'') Unowned],
     entryArguments = [exArgX, exArgY],
     instructions = [Apply exCallDup, ReturnInst 31 (applyValue exCallDup)]\<rparr>"

text \<open>
  A function with the results \<^verbatim>\<open>(Float, @out Float, Int)\<close> that returns the tuple
  \<^verbatim>\<open>(y, x)\<close>.
\<close>

definition exFunR :: SILFunction where
  "exFunR = \<lparr>loweredResults =
       [SILResultInfo (NominalType ''Float'') Unowned,
        SILResultInfo (NominalType ''Float'') Indirect,
        SILResultInfo (NominalType ''Int'') Unowned],
     entryArguments = [exBuf, exArgX, exArgY],
     instructions =
       [TupleInst 40 [exArgY, exArgX],
        ReturnInst 41
          (SingleValue (TupleType [NominalType ''Float'', NominalType ''Int''])
             (TupleInst 40 [exArgY, exArgX]))]\<rparr>"

text \<open>
  An address computed from a raw pointer that is a function argument:
  \<^verbatim>\<open>pointer_to_address %0 : $Builtin.RawPointer to $*Float\<close>.
\<close>

definition exArgumentAddress :: SILValue where
  "exArgumentAddress =
     SingleValue (NominalType ''*Float'')
       (PointerToAddressInst 50 (SILArgument (NominalType ''Builtin.RawPointer'') 0))"

text \<open>Parent indices (parameter indices, result indices) and oracles.\<close>

definition exParent :: "nat list \<times> nat list" where
  "exParent = ([0], [1])"

definition exOracleA :: "SILValue \<Rightarrow> nat list \<times> nat list \<Rightarrow> bool" where
  "exOracleA v p = (p = ([0], [1]) \<and> (v = exArgX \<or> v = exResultA1))"

definition exOracleB :: "SILValue \<Rightarrow> nat list \<times> nat list \<Rightarrow> bool" where
  "exOracleB v p = (v = exBuf)"

definition exAllActive :: "SILValue \<Rightarrow> nat list \<times> nat list \<Rightarrow> bool" where
  "exAllActive v p = True"

definition exNoneActive :: "SILValue \<Rightarrow> nat list \<times> nat list \<Rightarrow> bool" where
  "exNoneActive v p = False"

definition exEmpty :: CollectState where
  "exEmpty = \<lparr>results = [], paramIndices = [], resultIndices = [], oracleQueries = []\<rparr>"

lemmas ex_defs =
  exInt_def exFloat_def exPair_def exArgX_def exArgY_def exBuf_def exCallA_def exDtiA_def
  exDtiA2_def exResultA0_def exResultA1_def exFunA_def exFunUnused_def exFunTwice_def
  exFunWhole_def
  exFunOdd_def
  exCallB_def exFunB_def exCallDup_def exFunDup_def exFunR_def exArgumentAddress_def
  exParent_def exOracleA_def exOracleB_def exAllActive_def exNoneActive_def exEmpty_def

lemmas model_defs =
  applyValue_def getResults_def getUsers_def isFormalDirect_def isFormalIndirect_def
  isArrayLiteralIntrinsic_def getAllocateUninitializedArrayIntrinsic_def
  getAllocateUninitializedArrayIntrinsicElementAddress_def
  getSingleDestructureTupleUser_def forEachApplyDirectResult_def push_back_def
  getNumIndirectSILResults_def getSILArgIndexOfFirstIndirectResult_def slice_def
  sliceFrom_def getIndirectSILResults_def getArgumentsWithoutIndirectResults_def
  getIndirectResults_def collectAllFormalResultsInTypeOrder_def
  collectMinimalIndicesForFunctionCall_def

lemmas spec_defs =
  directContribution_def indirectResultArguments_def formalDirectBefore_def
  formalIndirectBefore_def activePositions_def uptoFirstActive_def returnedDirectResults_def

section \<open>Auxiliary facts\<close>

lemma direct_not_indirect: "isFormalDirect r \<Longrightarrow> \<not> isFormalIndirect r"
  by (simp add: isFormalDirect_def)

lemma not_direct_indirect: "\<not> isFormalDirect r \<Longrightarrow> isFormalIndirect r"
  by (simp add: isFormalDirect_def)

lemma getType_applyValue: "getType (applyValue ai) = applyType ai"
  by (simp add: applyValue_def)

subsection \<open>The scan of the uses\<close>

lemma scanUses_found:
  "scanUses users True result =
     (if destructureTupleUsers users = [] then Inr result
      else Inl MultipleDestructureTupleUsers)"
  by (induction users True result rule: scanUses.induct) auto

lemma scanUses_fresh:
  "scanUses users False result =
     (case destructureTupleUsers users of
        [] \<Rightarrow> Inr result
      | [dti] \<Rightarrow> Inr (Some dti)
      | _ \<Rightarrow> Inl MultipleDestructureTupleUsers)"
  by (induction users False result rule: scanUses.induct)
     (auto simp: scanUses_found split: list.splits)

lemma forEachApplyDirectResult_eq:
  "forEachApplyDirectResult F ai cb s =
     (if isTupleType (applyType ai) \<and>
         1 < length (destructureTupleUsers (getUsers F (applyValue ai)))
      then Inl MultipleDestructureTupleUsers
      else Inr (fold cb (directContribution F ai) s))"
  by (auto simp: forEachApplyDirectResult_def getSingleDestructureTupleUser_def
        directContribution_def scanUses_fresh getType_applyValue split: list.splits)

lemma fold_push_back: "fold push_back xs acc = acc @ xs"
  by (induction xs arbitrary: acc) (simp_all add: push_back_def)

subsection \<open>The merge\<close>

lemma mergeResults_length:
  "mergeResults rs ds is = Some ms \<Longrightarrow> length ms = length rs"
  by (induction rs arbitrary: ds "is" ms) (auto split: if_splits list.splits)

lemma mergeResults_None_iff:
  "(mergeResults rs ds is = None) =
     (length ds < length (filter isFormalDirect rs) \<or>
      length is < length (filter isFormalIndirect rs))"
proof (induction rs arbitrary: ds "is")
  case Nil
  show ?case by simp
next
  case (Cons r rs)
  show ?case
  proof (cases "isFormalDirect r")
    case True
    with Cons.IH direct_not_indirect[OF True] show ?thesis
      by (cases ds) auto
  next
    case False
    with Cons.IH not_direct_indirect[OF False] show ?thesis
      by (cases "is") auto
  qed
qed

lemma mergeResults_nth:
  "mergeResults rs ds is = Some ms \<Longrightarrow> k < length rs \<Longrightarrow>
     (isFormalDirect (rs ! k) \<longrightarrow>
        formalDirectBefore rs k < length ds \<and> ms ! k = ds ! formalDirectBefore rs k) \<and>
     (\<not> isFormalDirect (rs ! k) \<longrightarrow>
        formalIndirectBefore rs k < length is \<and> ms ! k = is ! formalIndirectBefore rs k)"
  unfolding formalDirectBefore_def formalIndirectBefore_def
proof (induction rs arbitrary: ds "is" ms k)
  case Nil
  then show ?case by simp
next
  case (Cons r rs)
  show ?case
  proof (cases "isFormalDirect r")
    case True
    with Cons.prems obtain d ds' ms' where ds: "ds = d # ds'"
      and rec: "mergeResults rs ds' is = Some ms'" and ms: "ms = d # ms'"
      by (auto split: list.splits)
    show ?thesis
    proof (cases k)
      case 0
      with True ds ms show ?thesis by simp
    next
      case (Suc j)
      with Cons.prems have "j < length rs" by simp
      from Cons.IH[OF rec this] True direct_not_indirect[OF True] ds ms Suc
      show ?thesis by simp
    qed
  next
    case False
    with Cons.prems obtain i is' ms' where "is": "is = i # is'"
      and rec: "mergeResults rs ds is' = Some ms'" and ms: "ms = i # ms'"
      by (auto split: list.splits)
    show ?thesis
    proof (cases k)
      case 0
      with False "is" ms show ?thesis by simp
    next
      case (Suc j)
      with Cons.prems have "j < length rs" by simp
      from Cons.IH[OF rec this] False not_direct_indirect[OF False] "is" ms Suc
      show ?thesis by simp
    qed
  qed
qed

subsection \<open>The loops\<close>

lemma formalResultsLoop_eq:
  "formalResultsLoop ds is rs i d acc =
     (case mergeResults rs (drop d ds) (drop i is) of
        None \<Rightarrow> Inl UncheckedReadPastEnd
      | Some ms \<Rightarrow> Inr (acc @ ms))"
proof (induction rs arbitrary: i d acc)
  case Nil
  show ?case by simp
next
  case (Cons r rs)
  show ?case
  proof (cases "isFormalDirect r")
    case True
    show ?thesis
    proof (cases "d < length ds")
      case lt: True
      then have "drop d ds = ds ! d # drop (d + 1) ds"
        by (simp add: Cons_nth_drop_Suc)
      with True lt Cons.IH[of i "d + 1" "acc @ [ds ! d]"] show ?thesis
        by (simp split: option.splits)
    next
      case False
      with True show ?thesis by simp
    qed
  next
    case False
    show ?thesis
    proof (cases "i < length is")
      case lt: True
      then have "drop i is = is ! i # drop (i + 1) is"
        by (simp add: Cons_nth_drop_Suc)
      with False lt Cons.IH[of "i + 1" d "acc @ [is ! i]"] show ?thesis
        by (simp split: option.splits)
    next
      case ge: False
      with False show ?thesis by simp
    qed
  qed
qed

lemma activePositions_Nil: "activePositions isA pI n [] = []"
  by (simp add: activePositions_def)

lemma activePositions_Cons:
  "activePositions isA pI n (v # vs) =
     (if isA v pI then n # activePositions isA pI (Suc n) vs
      else activePositions isA pI (Suc n) vs)"
  by (simp add: activePositions_def)

lemma set_activePositions:
  "set (activePositions isA pI n vs) = {n + k | k. k < length vs \<and> isA (vs ! k) pI}"
proof (induction vs arbitrary: n)
  case Nil
  show ?case by (simp add: activePositions_Nil)
next
  case (Cons v vs)
  let ?L = "{n + k | k. k < length (v # vs) \<and> isA ((v # vs) ! k) pI}"
  let ?R = "(if isA v pI then {n} else {}) \<union> {Suc n + k | k. k < length vs \<and> isA (vs ! k) pI}"
  have split: "?L = ?R"
  proof (rule set_eqI)
    fix x
    show "(x \<in> ?L) = (x \<in> ?R)"
    proof
      assume "x \<in> ?L"
      then obtain k where k: "x = n + k" "k < Suc (length vs)" "isA ((v # vs) ! k) pI"
        by auto
      show "x \<in> ?R"
      proof (cases k)
        case 0
        with k show ?thesis by simp
      next
        case (Suc j)
        with k have "x = Suc n + j" "j < length vs" "isA (vs ! j) pI" by simp_all
        then show ?thesis by blast
      qed
    next
      assume "x \<in> ?R"
      then consider "isA v pI" "x = n"
        | j where "x = Suc n + j" "j < length vs" "isA (vs ! j) pI"
        by (auto split: if_splits)
      then show "x \<in> ?L"
      proof cases
        case 1
        then have "x = n + 0 \<and> 0 < length (v # vs) \<and> isA ((v # vs) ! 0) pI" by simp
        then show ?thesis by blast
      next
        case 2
        then have "x = n + Suc j \<and> Suc j < length (v # vs) \<and> isA ((v # vs) ! Suc j) pI"
          by simp
        then show ?thesis by blast
      qed
    qed
  qed
  have "set (activePositions isA pI n (v # vs)) =
      (if isA v pI then {n} else {}) \<union> set (activePositions isA pI (Suc n) vs)"
    by (simp add: activePositions_Cons)
  also have "\<dots> = ?R"
    by (simp only: Cons.IH)
  finally show ?case
    by (simp only: split)
qed

lemma sorted_activePositions: "sorted_wrt (<) (activePositions isA pI n vs)"
proof -
  have "sorted_wrt (<) (map fst (enumerate n vs))"
    by simp
  then have "sorted_wrt (\<lambda>a b. fst a < fst b) (enumerate n vs)"
    by (simp only: sorted_wrt_map)
  then have "sorted_wrt (\<lambda>a b. fst a < fst b)
      (filter (\<lambda>(k, v). isA v pI) (enumerate n vs))"
    by (rule sorted_wrt_filter)
  then show ?thesis
    by (simp only: activePositions_def sorted_wrt_map)
qed

lemma paramLoop_eq:
  "paramLoop isA pI args n st =
     st\<lparr>paramIndices := paramIndices st @ activePositions isA pI n args,
        oracleQueries := oracleQueries st @ args\<rparr>"
  by (induction args arbitrary: n st)
     (simp_all add: activePositions_Nil activePositions_Cons Let_def)

lemma resultLoop_eq:
  "resultLoop isA pI ds is rs idx d i st =
     (case mergeResults rs (drop d ds) (drop i is) of
        None \<Rightarrow> Inl UncheckedReadPastEnd
      | Some ms \<Rightarrow>
          Inr (st\<lparr>results := results st @ ms,
                  resultIndices := resultIndices st @ activePositions isA pI idx ms,
                  oracleQueries := oracleQueries st @ ms\<rparr>))"
proof (induction rs arbitrary: idx d i st)
  case Nil
  show ?case by (simp add: activePositions_Nil)
next
  case (Cons r rs)
  show ?case
  proof (cases "isFormalDirect r")
    case True
    show ?thesis
    proof (cases "d < length ds")
      case lt: True
      then have dr: "drop d ds = ds ! d # drop (d + 1) ds"
        by (simp add: Cons_nth_drop_Suc)
      show ?thesis
        using True lt
        by (simp add: Let_def Cons.IH dr activePositions_Cons split: option.splits)
    next
      case False
      with True show ?thesis by simp
    qed
  next
    case False
    show ?thesis
    proof (cases "i < length is")
      case lt: True
      then have dr: "drop i is = is ! i # drop (i + 1) is"
        by (simp add: Cons_nth_drop_Suc)
      show ?thesis
        using False lt
        by (simp add: Let_def Cons.IH dr activePositions_Cons split: option.splits)
    next
      case ge: False
      with False show ?thesis by simp
    qed
  qed
qed

lemma anyOfActive_eq:
  "anyOfActive isA pI vs st =
     (\<exists>v \<in> set vs. isA v pI,
      st\<lparr>oracleQueries := oracleQueries st @ uptoFirstActive isA pI vs\<rparr>)"
  by (induction vs arbitrary: st) (simp_all add: uptoFirstActive_def Let_def)

subsection \<open>The two collectors, in closed form\<close>

lemma getArgumentsWithoutIndirectResults_eq:
  "getArgumentsWithoutIndirectResults ai =
     (if getNumIndirectSILResults (getSubstCalleeResults ai) \<le> length (getArguments ai)
      then Inr (drop (getNumIndirectSILResults (getSubstCalleeResults ai)) (getArguments ai))
      else Inl InvalidSlice)"
  by (simp add: getArgumentsWithoutIndirectResults_def sliceFrom_def)

lemma getIndirectSILResults_eq:
  "getIndirectSILResults ai =
     (if getNumIndirectSILResults (getSubstCalleeResults ai) \<le> length (getArguments ai)
      then Inr (indirectResultArguments ai)
      else Inl InvalidSlice)"
  by (simp add: getIndirectSILResults_def slice_def indirectResultArguments_def
        getNumIndirectSILResults_def)

lemma collectMinimalIndicesForFunctionCall_eq:
  "collectMinimalIndicesForFunctionCall F ai pI isA st =
     (if length (getArguments ai) < getNumIndirectSILResults (getSubstCalleeResults ai)
      then Inl InvalidSlice
      else if isTupleType (applyType ai) \<and>
              1 < length (destructureTupleUsers (getUsers F (applyValue ai)))
      then Inl MultipleDestructureTupleUsers
      else case mergeResults (getSubstCalleeResults ai) (directContribution F ai)
                  (indirectResultArguments ai) of
             None \<Rightarrow> Inl UncheckedReadPastEnd
           | Some ms \<Rightarrow>
               if results st \<noteq> [] then Inl ResultCountMismatch
               else if \<not> (\<exists>v \<in> set ms. isA v pI) then Inl NoActiveResults
               else Inr (st\<lparr>results := ms,
                  paramIndices := paramIndices st @ activePositions isA pI 0
                    (drop (getNumIndirectSILResults (getSubstCalleeResults ai)) (getArguments ai)),
                  resultIndices := resultIndices st @ activePositions isA pI 0 ms,
                  oracleQueries := oracleQueries st @
                    drop (getNumIndirectSILResults (getSubstCalleeResults ai)) (getArguments ai) @
                    ms @ uptoFirstActive isA pI ms\<rparr>))"
  by (auto simp: collectMinimalIndicesForFunctionCall_def Let_def
        getArgumentsWithoutIndirectResults_eq getIndirectSILResults_eq
        forEachApplyDirectResult_eq fold_push_back paramLoop_eq resultLoop_eq anyOfActive_eq
        getSILArgIndexOfFirstIndirectResult_def mergeResults_length
        split: option.splits)

lemma collectAllFormalResultsInTypeOrder_eq:
  "collectAllFormalResultsInTypeOrder F results0 =
     (if length (entryArguments F) < getNumIndirectSILResults (loweredResults F)
      then Inl InvalidSlice
      else case findReturnOperand (instructions F) of
             None \<Rightarrow> Inl NoReturnBlock
           | Some retVal \<Rightarrow>
               (case mergeResults (loweredResults F) (returnedDirectResults retVal)
                       (take (getNumIndirectSILResults (loweredResults F)) (entryArguments F)) of
                  None \<Rightarrow> Inl UncheckedReadPastEnd
                | Some ms \<Rightarrow> Inr (results0 @ ms)))"
  by (auto simp: collectAllFormalResultsInTypeOrder_def getIndirectResults_def slice_def
        formalResultsLoop_eq returnedDirectResults_def Let_def
        split: option.splits SILInstruction.splits)

subsection \<open>When the collectors return\<close>

lemma collectMinimalIndicesForFunctionCall_returns_iff:
  "(\<exists>st'. collectMinimalIndicesForFunctionCall F ai pI isA st = Inr st') =
     (getNumIndirectSILResults (getSubstCalleeResults ai) \<le> length (getArguments ai) \<and>
      \<not> (isTupleType (applyType ai) \<and>
         1 < length (destructureTupleUsers (getUsers F (applyValue ai)))) \<and>
      results st = [] \<and>
      (\<exists>ms. mergeResults (getSubstCalleeResults ai) (directContribution F ai)
              (indirectResultArguments ai) = Some ms \<and> (\<exists>v \<in> set ms. isA v pI)))"
  by (auto simp: collectMinimalIndicesForFunctionCall_eq split: option.splits)

lemma mergeResults_entry_None_iff:
  assumes "getNumIndirectSILResults rs \<le> length args"
  shows "(mergeResults rs ds (take (getNumIndirectSILResults rs) args) = None) =
     (length ds < length (filter isFormalDirect rs))"
  using assms by (simp add: mergeResults_None_iff getNumIndirectSILResults_def)

lemma collectAllFormalResultsInTypeOrder_returns_iff:
  "(\<exists>out. collectAllFormalResultsInTypeOrder F results0 = Inr out) =
     (getNumIndirectSILResults (loweredResults F) \<le> length (entryArguments F) \<and>
      (\<exists>retVal. findReturnOperand (instructions F) = Some retVal \<and>
         length (filter isFormalDirect (loweredResults F))
           \<le> length (returnedDirectResults retVal)))"
proof (cases "getNumIndirectSILResults (loweredResults F) \<le> length (entryArguments F)")
  case False
  then show ?thesis
    by (simp add: collectAllFormalResultsInTypeOrder_eq)
next
  case n: True
  show ?thesis
  proof (cases "findReturnOperand (instructions F)")
    case None
    with n show ?thesis
      by (simp add: collectAllFormalResultsInTypeOrder_eq)
  next
    case (Some retVal)
    show ?thesis
    proof (cases "mergeResults (loweredResults F) (returnedDirectResults retVal)
        (take (getNumIndirectSILResults (loweredResults F)) (entryArguments F))")
      case None
      with mergeResults_entry_None_iff [OF n, of "returnedDirectResults retVal"]
      have "length (returnedDirectResults retVal)
          < length (filter isFormalDirect (loweredResults F))"
        by simp
      with n Some None show ?thesis
        by (simp add: collectAllFormalResultsInTypeOrder_eq)
    next
      case merged: (Some ms)
      with mergeResults_entry_None_iff [OF n, of "returnedDirectResults retVal"]
      have "\<not> length (returnedDirectResults retVal)
          < length (filter isFormalDirect (loweredResults F))"
        by simp
      with n Some merged show ?thesis
        by (simp add: collectAllFormalResultsInTypeOrder_eq)
    qed
  qed
qed

subsection \<open>Exhausted direct results\<close>

text \<open>
  With fewer direct values than formally direct results, the result loop reaches the
  read past the end of \<^verbatim>\<open>directResults\<close>, whatever the oracle and the state are.
\<close>

lemma collectMinimalIndices_direct_exhausted:
  assumes "forEachApplyDirectResult F ai push_back [] = Inr directResults"
    and "getIndirectSILResults ai = Inr indirectResults"
    and "length directResults < length (filter isFormalDirect (getSubstCalleeResults ai))"
  shows "collectMinimalIndicesForFunctionCall F ai parentIndices isActive st =
     Inl UncheckedReadPastEnd"
proof -
  from assms(1) have multi: "\<not> (isTupleType (applyType ai) \<and>
      1 < length (destructureTupleUsers (getUsers F (applyValue ai))))"
    and dr: "directResults = directContribution F ai"
    by (auto simp: forEachApplyDirectResult_eq fold_push_back split: if_splits)
  from assms(2) have args: "\<not> length (getArguments ai)
      < getNumIndirectSILResults (getSubstCalleeResults ai)"
    by (simp add: getIndirectSILResults_eq split: if_splits)
  from assms(3) dr have "mergeResults (getSubstCalleeResults ai) (directContribution F ai)
      (indirectResultArguments ai) = None"
    by (simp add: mergeResults_None_iff)
  with multi args show ?thesis
    by (simp add: collectMinimalIndicesForFunctionCall_eq)
qed

subsection \<open>The address chain of the array allocation\<close>

lemma elementAddress_of_allocation:
  assumes "isArrayLiteralIntrinsic ai"
    and "dtiOperand dti = SingleValue t (Apply ai)"
  shows "getAllocateUninitializedArrayIntrinsicElementAddress
           (SingleValue a (PointerToAddressInst n
              (MultipleValueResult p (DestructureTuple dti) k))) = Inr (Some ai)"
    and "getAllocateUninitializedArrayIntrinsicElementAddress
           (SingleValue b (IndexAddrInst m
              (SingleValue a (PointerToAddressInst n
                 (MultipleValueResult p (DestructureTuple dti) k))) idx)) = Inr (Some ai)"
  using assms
  by (simp_all add: getAllocateUninitializedArrayIntrinsicElementAddress_def
        getAllocateUninitializedArrayIntrinsic_def)

lemma elementAddress_fatal_iff:
  "(getAllocateUninitializedArrayIntrinsicElementAddress v = Inl e) =
     (e = NullPointerCast \<and>
      (\<exists>ptr. getDefiningInstruction ptr = None \<and>
         (case dyn_cast_IndexAddrInst v of
            Some base \<Rightarrow> dyn_cast_PointerToAddressInst base = Some ptr
          | None \<Rightarrow> dyn_cast_PointerToAddressInst v = Some ptr)))"
  by (auto simp: getAllocateUninitializedArrayIntrinsicElementAddress_def Let_def
        split: option.splits SILInstruction.splits)

section \<open>The claims\<close>

text \<open>
  Claim C1, as amended. Take a call whose direct contribution (the outputs of its unique
  \<^verbatim>\<open>destructure_tuple\<close> user when its type is a tuple, the call's value otherwise)
  has at least as many values as the callee has formally direct results, and which
  has an argument for each formally indirect result. Then the merged list exists, it has
  as many elements as the callee has declared results, its element at a formally direct
  position is the next direct value and its element at a formally indirect position is
  the next indirect-result argument, both in order.
  \<^verbatim>\<open>collectMinimalIndicesForFunctionCall\<close> returns exactly when, in addition, the
  call of tuple type has no second \<^verbatim>\<open>destructure_tuple\<close> user, the \<^verbatim>\<open>results\<close>
  vector it is given is empty and some merged value is active; its \<^verbatim>\<open>results\<close>
  output is then the merged list. Nothing is said of a call with fewer direct values.
\<close>

theorem collectMinimalIndices_returns_merged_results:
  assumes "length (filter isFormalDirect (getSubstCalleeResults ai))
             \<le> length (directContribution F ai)"
    and "length (filter isFormalIndirect (getSubstCalleeResults ai))
             \<le> length (getArguments ai)"
  shows "\<exists>ms.
    mergeResults (getSubstCalleeResults ai) (directContribution F ai)
      (indirectResultArguments ai) = Some ms \<and>
    length ms = length (getSubstCalleeResults ai) \<and>
    (\<forall>k < length (getSubstCalleeResults ai).
       if isFormalDirect (getSubstCalleeResults ai ! k)
       then formalDirectBefore (getSubstCalleeResults ai) k < length (directContribution F ai) \<and>
            ms ! k = directContribution F ai ! formalDirectBefore (getSubstCalleeResults ai) k
       else formalIndirectBefore (getSubstCalleeResults ai) k
              < length (indirectResultArguments ai) \<and>
            ms ! k =
              indirectResultArguments ai ! formalIndirectBefore (getSubstCalleeResults ai) k) \<and>
    ((\<exists>st'. collectMinimalIndicesForFunctionCall F ai parentIndices isActive st = Inr st') =
       (\<not> (isTupleType (applyType ai) \<and>
           1 < length (destructureTupleUsers (getUsers F (applyValue ai)))) \<and>
        results st = [] \<and>
        (\<exists>v \<in> set ms. isActive v parentIndices))) \<and>
    (\<forall>st'. collectMinimalIndicesForFunctionCall F ai parentIndices isActive st = Inr st'
       \<longrightarrow> results st' = ms)"
proof -
  let ?rs = "getSubstCalleeResults ai"
  from assms(2) have args: "getNumIndirectSILResults ?rs \<le> length (getArguments ai)"
    by (simp add: getNumIndirectSILResults_def)
  then have ind: "\<not> length (indirectResultArguments ai) < length (filter isFormalIndirect ?rs)"
    by (simp add: indirectResultArguments_def getNumIndirectSILResults_def)
  from assms(1) have dir: "\<not> length (directContribution F ai) < length (filter isFormalDirect ?rs)"
    by simp
  from dir ind have "mergeResults ?rs (directContribution F ai) (indirectResultArguments ai)
      \<noteq> None"
    by (simp add: mergeResults_None_iff)
  then obtain ms where
    ms: "mergeResults ?rs (directContribution F ai) (indirectResultArguments ai) = Some ms"
    by blast
  have len: "length ms = length ?rs"
    using ms by (rule mergeResults_length)
  have nth: "\<forall>k < length ?rs.
       if isFormalDirect (?rs ! k)
       then formalDirectBefore ?rs k < length (directContribution F ai) \<and>
            ms ! k = directContribution F ai ! formalDirectBefore ?rs k
       else formalIndirectBefore ?rs k < length (indirectResultArguments ai) \<and>
            ms ! k = indirectResultArguments ai ! formalIndirectBefore ?rs k"
    using mergeResults_nth [OF ms] by simp
  have ret: "(\<exists>st'. collectMinimalIndicesForFunctionCall F ai parentIndices isActive st = Inr st') =
       (\<not> (isTupleType (applyType ai) \<and>
           1 < length (destructureTupleUsers (getUsers F (applyValue ai)))) \<and>
        results st = [] \<and>
        (\<exists>v \<in> set ms. isActive v parentIndices))"
    using args ms by (simp add: collectMinimalIndicesForFunctionCall_returns_iff)
  have out: "\<forall>st'. collectMinimalIndicesForFunctionCall F ai parentIndices isActive st = Inr st'
       \<longrightarrow> results st' = ms"
    using ms
    by (auto simp: collectMinimalIndicesForFunctionCall_eq split: if_splits)
  from ms len nth ret out show ?thesis by blast
qed

theorem collectMinimalIndices_returns_merged_results_witness:
  "length (filter isFormalDirect (getSubstCalleeResults exCallA))
     \<le> length (directContribution exFunA exCallA) \<and>
   length (filter isFormalIndirect (getSubstCalleeResults exCallA))
     \<le> length (getArguments exCallA) \<and>
   directContribution exFunA exCallA = [exResultA0, exResultA1] \<and>
   mergeResults (getSubstCalleeResults exCallA) (directContribution exFunA exCallA)
     (indirectResultArguments exCallA) = Some [exResultA0, exResultA1] \<and>
   collectMinimalIndicesForFunctionCall exFunA exCallA exParent exOracleA exEmpty =
     Inr \<lparr>results = [exResultA0, exResultA1], paramIndices = [0], resultIndices = [1],
          oracleQueries = [exArgX, exArgY, exResultA0, exResultA1, exResultA0, exResultA1]\<rparr> \<and>
   length (filter isFormalDirect (getSubstCalleeResults exCallB))
     \<le> length (directContribution exFunB exCallB) \<and>
   length (filter isFormalIndirect (getSubstCalleeResults exCallB))
     \<le> length (getArguments exCallB) \<and>
   mergeResults (getSubstCalleeResults exCallB) (directContribution exFunB exCallB)
     (indirectResultArguments exCallB) = Some [applyValue exCallB, exBuf] \<and>
   isFormalDirect (getSubstCalleeResults exCallB ! 0) \<and>
   [applyValue exCallB, exBuf] ! 0 = directContribution exFunB exCallB ! 0 \<and>
   \<not> isFormalDirect (getSubstCalleeResults exCallB ! 1) \<and>
   [applyValue exCallB, exBuf] ! 1 = indirectResultArguments exCallB ! 0 \<and>
   collectMinimalIndicesForFunctionCall exFunB exCallB exParent exOracleB exEmpty =
     Inr \<lparr>results = [applyValue exCallB, exBuf], paramIndices = [], resultIndices = [1],
          oracleQueries = [exArgX, applyValue exCallB, exBuf, applyValue exCallB, exBuf]\<rparr>"
proof -
  have dA: "directContribution exFunA exCallA = [exResultA0, exResultA1]"
    by (simp add: ex_defs model_defs spec_defs)
  have a1: "length (filter isFormalDirect (getSubstCalleeResults exCallA))
      \<le> length (directContribution exFunA exCallA)"
    by (simp add: dA) (simp add: ex_defs model_defs)
  have a2: "length (filter isFormalIndirect (getSubstCalleeResults exCallA))
      \<le> length (getArguments exCallA)"
    by (simp add: ex_defs model_defs)
  have b1: "length (filter isFormalDirect (getSubstCalleeResults exCallB))
      \<le> length (directContribution exFunB exCallB)"
    by (simp add: ex_defs model_defs spec_defs)
  have b2: "length (filter isFormalIndirect (getSubstCalleeResults exCallB))
      \<le> length (getArguments exCallB)"
    by (simp add: ex_defs model_defs)
  have runA: "collectMinimalIndicesForFunctionCall exFunA exCallA exParent exOracleA exEmpty =
     Inr \<lparr>results = [exResultA0, exResultA1], paramIndices = [0], resultIndices = [1],
          oracleQueries = [exArgX, exArgY, exResultA0, exResultA1, exResultA0, exResultA1]\<rparr>"
    by (simp add: ex_defs model_defs Let_def)
  have runB: "collectMinimalIndicesForFunctionCall exFunB exCallB exParent exOracleB exEmpty =
     Inr \<lparr>results = [applyValue exCallB, exBuf], paramIndices = [], resultIndices = [1],
          oracleQueries = [exArgX, applyValue exCallB, exBuf, applyValue exCallB, exBuf]\<rparr>"
    by (simp add: ex_defs model_defs Let_def)
  from collectMinimalIndices_returns_merged_results
    [where isActive = exOracleA and parentIndices = exParent and st = exEmpty, OF a1 a2] runA
  have mA: "mergeResults (getSubstCalleeResults exCallA) (directContribution exFunA exCallA)
     (indirectResultArguments exCallA) = Some [exResultA0, exResultA1]"
    by auto
  from collectMinimalIndices_returns_merged_results
    [where isActive = exOracleB and parentIndices = exParent and st = exEmpty, OF b1 b2] runB
  have mB: "mergeResults (getSubstCalleeResults exCallB) (directContribution exFunB exCallB)
     (indirectResultArguments exCallB) = Some [applyValue exCallB, exBuf]"
    by auto
  have posB: "isFormalDirect (getSubstCalleeResults exCallB ! 0) \<and>
     [applyValue exCallB, exBuf] ! 0 = directContribution exFunB exCallB ! 0 \<and>
     \<not> isFormalDirect (getSubstCalleeResults exCallB ! 1) \<and>
     [applyValue exCallB, exBuf] ! 1 = indirectResultArguments exCallB ! 0"
    by (simp add: ex_defs model_defs spec_defs)
  from a1 a2 dA mA runA b1 b2 mB posB runB show ?thesis by simp
qed

text \<open>
  Claim C1 as stated, for every call, fails for a call of tuple type with two formally
  direct results and no \<^verbatim>\<open>destructure_tuple\<close> user: its direct contribution is
  empty, so there is no next direct value for position 0, and the collector reads
  \<^verbatim>\<open>directResults\<close> past its end instead of producing a list of two results.
\<close>

theorem collectMinimalIndices_no_decomposition_no_results:
  "length (getSubstCalleeResults exCallA) = 2 \<and>
   isFormalDirect (getSubstCalleeResults exCallA ! 0) \<and>
   directContribution exFunUnused exCallA = [] \<and>
   forEachApplyDirectResult exFunUnused exCallA push_back [] = Inr [] \<and>
   mergeResults (getSubstCalleeResults exCallA) (directContribution exFunUnused exCallA)
     (indirectResultArguments exCallA) = None \<and>
   collectMinimalIndicesForFunctionCall exFunUnused exCallA exParent exAllActive exEmpty =
     Inl UncheckedReadPastEnd"
  by (simp add: ex_defs model_defs spec_defs Let_def)

text \<open>
  Claim C2. A call whose merged result list holds no value that the oracle reports
  active under the parent indices makes \<^verbatim>\<open>collectMinimalIndicesForFunctionCall\<close>
  fail fatally: the assertion of line 146 when the \<^verbatim>\<open>results\<close> vector it was
  given is empty (the one of line 145 otherwise). It does not return an empty set of
  result indices.
\<close>

theorem collectMinimalIndices_no_active_result_fatal:
  assumes "forEachApplyDirectResult F ai push_back [] = Inr directResults"
    and "mergeResults (getSubstCalleeResults ai) directResults (indirectResultArguments ai)
           = Some ms"
    and "\<forall>v \<in> set ms. \<not> isActive v parentIndices"
  shows "collectMinimalIndicesForFunctionCall F ai parentIndices isActive st =
     Inl (if results st = [] then NoActiveResults else ResultCountMismatch)"
proof -
  from assms(1) have multi: "\<not> (isTupleType (applyType ai) \<and>
      1 < length (destructureTupleUsers (getUsers F (applyValue ai))))"
    and dr: "directResults = directContribution F ai"
    by (auto simp: forEachApplyDirectResult_eq fold_push_back split: if_splits)
  have "mergeResults (getSubstCalleeResults ai) directResults (indirectResultArguments ai)
      \<noteq> None"
    using assms(2) by simp
  then have "\<not> length (indirectResultArguments ai)
      < length (filter isFormalIndirect (getSubstCalleeResults ai))"
    by (simp add: mergeResults_None_iff)
  then have args: "\<not> length (getArguments ai)
      < getNumIndirectSILResults (getSubstCalleeResults ai)"
    by (simp add: indirectResultArguments_def getNumIndirectSILResults_def)
  from multi args assms(2,3) dr show ?thesis
    by (simp add: collectMinimalIndicesForFunctionCall_eq)
qed

theorem collectMinimalIndices_no_active_result_fatal_witness:
  "forEachApplyDirectResult exFunA exCallA push_back [] = Inr [exResultA0, exResultA1] \<and>
   mergeResults (getSubstCalleeResults exCallA) [exResultA0, exResultA1]
     (indirectResultArguments exCallA) = Some [exResultA0, exResultA1] \<and>
   \<not> exNoneActive exResultA0 exParent \<and> \<not> exNoneActive exResultA1 exParent \<and>
   collectMinimalIndicesForFunctionCall exFunA exCallA exParent exNoneActive exEmpty =
     Inl NoActiveResults"
proof -
  have h1: "forEachApplyDirectResult exFunA exCallA push_back [] = Inr [exResultA0, exResultA1]"
    by (simp add: ex_defs model_defs Let_def)
  have h2: "mergeResults (getSubstCalleeResults exCallA) [exResultA0, exResultA1]
     (indirectResultArguments exCallA) = Some [exResultA0, exResultA1]"
    by (simp add: ex_defs model_defs spec_defs)
  have h3: "\<forall>v \<in> set [exResultA0, exResultA1]. \<not> exNoneActive v exParent"
    by (simp add: exNoneActive_def)
  show ?thesis
    using h1 h2 h3
      collectMinimalIndices_no_active_result_fatal
        [where isActive = exNoneActive and parentIndices = exParent and st = exEmpty,
         OF h1 h2 h3]
    by (simp add: exEmpty_def)
qed

text \<open>
  Claim C3. When \<^verbatim>\<open>collectMinimalIndicesForFunctionCall\<close> returns, the parameter
  indices it has appended are exactly the positions, counted from the left in the
  arguments of the call without the indirect-result addresses, of the arguments that
  the oracle reports active under the parent indices; they are appended in increasing
  order, none twice.
\<close>

theorem collectMinimalIndices_paramIndices:
  assumes "collectMinimalIndicesForFunctionCall F ai parentIndices isActive st = Inr st'"
  shows "\<exists>applyArgs ps.
    getArgumentsWithoutIndirectResults ai = Inr applyArgs \<and>
    paramIndices st' = paramIndices st @ ps \<and>
    set ps = {k. k < length applyArgs \<and> isActive (applyArgs ! k) parentIndices} \<and>
    sorted_wrt (<) ps \<and> distinct ps"
proof -
  let ?args = "drop (getNumIndirectSILResults (getSubstCalleeResults ai)) (getArguments ai)"
  let ?ps = "activePositions isActive parentIndices 0 ?args"
  from assms have a: "getArgumentsWithoutIndirectResults ai = Inr ?args"
    and p: "paramIndices st' = paramIndices st @ ?ps"
    by (auto simp: collectMinimalIndicesForFunctionCall_eq
          getArgumentsWithoutIndirectResults_eq split: if_splits option.splits)
  have s: "set ?ps = {k. k < length ?args \<and> isActive (?args ! k) parentIndices}"
    by (simp add: set_activePositions)
  have o: "sorted_wrt (<) ?ps"
    by (rule sorted_activePositions)
  then have d: "distinct ?ps"
    by (simp add: strict_sorted_iff)
  from a p s o d show ?thesis by blast
qed

theorem collectMinimalIndices_paramIndices_witness:
  "collectMinimalIndicesForFunctionCall exFunA exCallA exParent exOracleA exEmpty =
     Inr \<lparr>results = [exResultA0, exResultA1], paramIndices = [0], resultIndices = [1],
          oracleQueries = [exArgX, exArgY, exResultA0, exResultA1, exResultA0, exResultA1]\<rparr> \<and>
   (\<exists>applyArgs ps.
      getArgumentsWithoutIndirectResults exCallA = Inr applyArgs \<and>
      [0] = paramIndices exEmpty @ ps \<and>
      set ps = {k. k < length applyArgs \<and> exOracleA (applyArgs ! k) exParent} \<and>
      sorted_wrt (<) ps \<and> distinct ps)"
proof -
  have run: "collectMinimalIndicesForFunctionCall exFunA exCallA exParent exOracleA exEmpty =
     Inr \<lparr>results = [exResultA0, exResultA1], paramIndices = [0], resultIndices = [1],
          oracleQueries = [exArgX, exArgY, exResultA0, exResultA1, exResultA0, exResultA1]\<rparr>"
    by (simp add: ex_defs model_defs Let_def)
  show ?thesis
    using run collectMinimalIndices_paramIndices [OF run]
    by simp
qed

text \<open>
  Claim C4. \<^verbatim>\<open>getSingleDestructureTupleUser\<close> returns null for a value whose type
  is not a tuple, whatever its uses are; for a value of tuple type it returns the
  \<^verbatim>\<open>destructure_tuple\<close> user when there is exactly one, null when there is none,
  and fails fatally when there is more than one.
\<close>

theorem getSingleDestructureTupleUser_cases:
  "(\<not> isTupleType (getType v) \<longrightarrow> getSingleDestructureTupleUser F v = Inr None) \<and>
   (isTupleType (getType v) \<and> destructureTupleUsers (getUsers F v) = [dti] \<longrightarrow>
      getSingleDestructureTupleUser F v = Inr (Some dti)) \<and>
   (isTupleType (getType v) \<and> destructureTupleUsers (getUsers F v) = [] \<longrightarrow>
      getSingleDestructureTupleUser F v = Inr None) \<and>
   (isTupleType (getType v) \<and> 1 < length (destructureTupleUsers (getUsers F v)) \<longrightarrow>
      getSingleDestructureTupleUser F v = Inl MultipleDestructureTupleUsers)"
  by (auto simp: getSingleDestructureTupleUser_def scanUses_fresh split: list.splits)

theorem getSingleDestructureTupleUser_cases_witness:
  "\<not> isTupleType (getType exArgX) \<and>
   length (destructureTupleUsers (getUsers exFunOdd exArgX)) = 2 \<and>
   getSingleDestructureTupleUser exFunOdd exArgX = Inr None \<and>
   isTupleType (getType (applyValue exCallA)) \<and>
   destructureTupleUsers (getUsers exFunA (applyValue exCallA)) = [exDtiA] \<and>
   getSingleDestructureTupleUser exFunA (applyValue exCallA) = Inr (Some exDtiA) \<and>
   destructureTupleUsers (getUsers exFunUnused (applyValue exCallA)) = [] \<and>
   getSingleDestructureTupleUser exFunUnused (applyValue exCallA) = Inr None \<and>
   1 < length (destructureTupleUsers (getUsers exFunTwice (applyValue exCallA))) \<and>
   getSingleDestructureTupleUser exFunTwice (applyValue exCallA) =
     Inl MultipleDestructureTupleUsers"
proof -
  have h0: "\<not> isTupleType (getType exArgX)"
    by (simp add: exArgX_def)
  have odd: "length (destructureTupleUsers (getUsers exFunOdd exArgX)) = 2"
    by (simp add: ex_defs getUsers_def)
  have h1: "isTupleType (getType (applyValue exCallA))"
    by (simp add: exCallA_def applyValue_def)
  have one: "destructureTupleUsers (getUsers exFunA (applyValue exCallA)) = [exDtiA]"
    by (simp add: ex_defs getUsers_def applyValue_def)
  have none: "destructureTupleUsers (getUsers exFunUnused (applyValue exCallA)) = []"
    by (simp add: ex_defs getUsers_def applyValue_def)
  have two: "1 < length (destructureTupleUsers (getUsers exFunTwice (applyValue exCallA)))"
    by (simp add: ex_defs getUsers_def applyValue_def)
  show ?thesis
    using h0 odd h1 one none two
      getSingleDestructureTupleUser_cases [of exArgX exFunOdd exDtiA]
      getSingleDestructureTupleUser_cases [of "applyValue exCallA" exFunA exDtiA]
      getSingleDestructureTupleUser_cases [of "applyValue exCallA" exFunUnused exDtiA]
      getSingleDestructureTupleUser_cases [of "applyValue exCallA" exFunTwice exDtiA]
    by simp
qed

text \<open>
  Claim C5 says that \<^verbatim>\<open>getAllocateUninitializedArrayIntrinsicElementAddress\<close>
  returns null for every value that is not at the end of the chain allocation,
  \<^verbatim>\<open>destructure_tuple\<close>, \<^verbatim>\<open>pointer_to_address\<close>, optional \<^verbatim>\<open>index_addr\<close>.
  For a \<^verbatim>\<open>pointer_to_address\<close> of a function argument the code does not return:
  the argument has no defining instruction, and line 46 applies \<^verbatim>\<open>dyn_cast\<close>,
  not \<^verbatim>\<open>dyn_cast_or_null\<close> as line 90 does, to that null pointer.
\<close>

theorem elementAddress_of_argument_pointer_fatal:
  "getAllocateUninitializedArrayIntrinsicElementAddress exArgumentAddress = Inl NullPointerCast"
  by (simp add: getAllocateUninitializedArrayIntrinsicElementAddress_def exArgumentAddress_def)


text \<open>
  Claim C7. For a call of tuple type without a \<^verbatim>\<open>destructure_tuple\<close> user,
  \<^verbatim>\<open>forEachApplyDirectResult\<close> returns normally and has not called the callback:
  the state of every callback is unchanged, the vector of direct results stays empty
  and a callback that counts its calls counts none.
\<close>

theorem forEachApplyDirectResult_no_decomposition:
  "isTupleType (applyType ai) \<Longrightarrow>
   destructureTupleUsers (getUsers F (applyValue ai)) = [] \<Longrightarrow>
   forEachApplyDirectResult F ai resultCallback s = Inr s \<and>
   forEachApplyDirectResult F ai push_back [] = Inr [] \<and>
   forEachApplyDirectResult F ai (\<lambda>_ n. Suc n) 0 = Inr 0"
  by (simp add: forEachApplyDirectResult_eq directContribution_def)

theorem forEachApplyDirectResult_no_decomposition_witness:
  "isTupleType (applyType exCallA) \<and>
   destructureTupleUsers (getUsers exFunUnused (applyValue exCallA)) = [] \<and>
   forEachApplyDirectResult exFunUnused exCallA push_back [exArgX] = Inr [exArgX] \<and>
   forEachApplyDirectResult exFunUnused exCallA push_back [] = Inr [] \<and>
   forEachApplyDirectResult exFunUnused exCallA (\<lambda>_ n. Suc n) 0 = Inr 0"
proof -
  have h1: "isTupleType (applyType exCallA)"
    by (simp add: exCallA_def)
  have h2: "destructureTupleUsers (getUsers exFunUnused (applyValue exCallA)) = []"
    by (simp add: ex_defs getUsers_def applyValue_def)
  show ?thesis
    using h1 h2 forEachApplyDirectResult_no_decomposition [OF h1 h2, of push_back "[exArgX]"]
    by simp
qed

text \<open>
  Claim C8, as amended. When \<^verbatim>\<open>collectMinimalIndicesForFunctionCall\<close> returns, it
  has queried the oracle once for each argument position (without the indirect-result
  addresses), in order, then once for each position of the merged result list, in
  order, and then, in the assertion of line 146, once more for each merged result up
  to and including the first active one. A value that stands at several positions is
  queried once for each of them.
\<close>

theorem collectMinimalIndices_oracle_queries:
  assumes "collectMinimalIndicesForFunctionCall F ai parentIndices isActive st = Inr st'"
  shows "\<exists>applyArgs.
    getArgumentsWithoutIndirectResults ai = Inr applyArgs \<and>
    oracleQueries st' =
      oracleQueries st @ applyArgs @ results st' @
        uptoFirstActive isActive parentIndices (results st')"
  using assms
  by (auto simp: collectMinimalIndicesForFunctionCall_eq
        getArgumentsWithoutIndirectResults_eq split: if_splits option.splits)

theorem collectMinimalIndices_oracle_queries_witness:
  "collectMinimalIndicesForFunctionCall exFunA exCallA exParent exOracleA exEmpty =
     Inr \<lparr>results = [exResultA0, exResultA1], paramIndices = [0], resultIndices = [1],
          oracleQueries = [exArgX, exArgY, exResultA0, exResultA1, exResultA0, exResultA1]\<rparr> \<and>
   getArgumentsWithoutIndirectResults exCallA = Inr [exArgX, exArgY] \<and>
   uptoFirstActive exOracleA exParent [exResultA0, exResultA1] = [exResultA0, exResultA1] \<and>
   [exArgX, exArgY, exResultA0, exResultA1, exResultA0, exResultA1] =
     oracleQueries exEmpty @ [exArgX, exArgY] @ [exResultA0, exResultA1] @
       uptoFirstActive exOracleA exParent [exResultA0, exResultA1]"
proof -
  have run: "collectMinimalIndicesForFunctionCall exFunA exCallA exParent exOracleA exEmpty =
     Inr \<lparr>results = [exResultA0, exResultA1], paramIndices = [0], resultIndices = [1],
          oracleQueries = [exArgX, exArgY, exResultA0, exResultA1, exResultA0, exResultA1]\<rparr>"
    by (simp add: ex_defs model_defs Let_def)
  have args: "getArgumentsWithoutIndirectResults exCallA = Inr [exArgX, exArgY]"
    by (simp add: ex_defs model_defs Let_def)
  have upto: "uptoFirstActive exOracleA exParent [exResultA0, exResultA1] =
      [exResultA0, exResultA1]"
    by (simp add: ex_defs uptoFirstActive_def)
  show ?thesis
    using run args upto collectMinimalIndices_oracle_queries [OF run]
    by (simp add: exEmpty_def)
qed

text \<open>
  Claim C8 as stated, at most one query for each value, fails for a call that passes
  the same value as two arguments: the oracle is asked about it twice, and twice about
  the result of the call.
\<close>

theorem collectMinimalIndices_queries_value_twice:
  "map_sum id oracleQueries
     (collectMinimalIndicesForFunctionCall exFunDup exCallDup exParent exAllActive exEmpty) =
     Inr [exArgY, exArgY, applyValue exCallDup, applyValue exCallDup] \<and>
   \<not> distinct [exArgY, exArgY, applyValue exCallDup, applyValue exCallDup]"
  by (simp add: ex_defs model_defs Let_def)

text \<open>
  Claim C9. The values that \<^verbatim>\<open>forEachApplyDirectResult\<close> hands to its callback
  are one fixed sequence for a call in an unchanged function, whatever the callback and
  its state are; a second enumeration, started after the first, hands over the same
  sequence again.
\<close>

theorem forEachApplyDirectResult_restartable:
  "forEachApplyDirectResult F ai push_back [] = Inr rs \<Longrightarrow>
   forEachApplyDirectResult F ai resultCallback s = Inr (fold resultCallback rs s) \<and>
   forEachApplyDirectResult F ai push_back rs = Inr (rs @ rs)"
  by (simp add: forEachApplyDirectResult_eq fold_push_back split: if_splits)

theorem forEachApplyDirectResult_restartable_witness:
  "forEachApplyDirectResult exFunA exCallA push_back [] = Inr [exResultA0, exResultA1] \<and>
   forEachApplyDirectResult exFunA exCallA push_back [exResultA0, exResultA1] =
     Inr [exResultA0, exResultA1, exResultA0, exResultA1]"
proof -
  have run: "forEachApplyDirectResult exFunA exCallA push_back [] = Inr [exResultA0, exResultA1]"
    by (simp add: ex_defs model_defs)
  show ?thesis
    using run forEachApplyDirectResult_restartable [OF run, of push_back "[]"]
    by simp
qed



end
